theory Spec2Isabelle
  imports Main "HOL-Library.Char_ord" "HOL-Library.List_Lexorder"
begin

section \<open>Data model\<close>

text \<open>
  The interface \<open>Bookmark\<close> of the types module: five fields, all of type \<open>string\<close>.
  The field \<open>id\<close> is named \<open>bookmark_id\<close> here, since \<open>id\<close> is the identity function
  of HOL.
\<close>

record bookmark =
  bookmark_id :: string
  user_id :: string
  title :: string
  url :: string
  created_at :: string

text \<open>
  \<open>User\<close> comes from the client library; the application reads \<open>user.id\<close> for every
  decision (and \<open>email\<close> for display only). The effects of \<open>Home\<close> compare the user
  by reference; \<open>object_ref\<close> stands for the identity of the object, so that two users
  are equal exactly when they are the same object.
\<close>

record user =
  uid :: string
  email :: string
  object_ref :: nat

text \<open>
  The payload of a push event, as the subscription callback of \<open>Home\<close> reads it:
  \<open>payload.eventType\<close>, \<open>payload.new\<close> and \<open>payload.old.id\<close>.
\<close>

record payload =
  eventType :: string
  new :: bookmark
  old :: bookmark

section \<open>The remote collaborator\<close>

text \<open>
  The answer of a remote call is the pair \<open>{ data, error }\<close> that the client library
  resolves to; \<open>null\<close> is \<open>None\<close>.
\<close>

record 'a response =
  data :: "'a option"
  error :: "string option"

text \<open>
  A select query, as the query builder assembles it:
  \<open>from(from_table).select(columns).eq(eq_column, eq_value).order(order_column, { ascending })\<close>.
\<close>

record select_query =
  from_table :: string
  columns :: string
  eq_column :: string
  eq_value :: string
  order_column :: string
  ascending :: bool

text \<open>
  A configured client is given by the answers of the remote collaborator to the calls
  that \<open>src/lib/supabase.ts\<close> makes:
  \<^item> \<open>from_select q\<close> answers the select query \<open>q\<close>;
  \<^item> \<open>from_bookmarks_insert userId title url\<close> answers
    \<open>from('bookmarks').insert([{ user_id: userId, title, url }]).select().single()\<close>;
  \<^item> \<open>from_bookmarks_delete bookmarkId\<close> answers
    \<open>from('bookmarks').delete().eq('id', bookmarkId)\<close>, of which only \<open>error\<close> is read;
  \<^item> \<open>auth_signInWithOAuth provider\<close>, \<open>auth_signOut\<close> and \<open>auth_getSession\<close> answer the
    calls on \<open>supabase.auth\<close>.
\<close>

record client =
  from_select :: "select_query \<Rightarrow> bookmark list response"
  from_bookmarks_insert :: "string \<Rightarrow> string \<Rightarrow> string \<Rightarrow> bookmark response"
  from_bookmarks_delete :: "string \<Rightarrow> string option"
  auth_signInWithOAuth :: "string \<Rightarrow> string response"
  auth_signOut :: "string option"
  auth_getSession :: "user option"

text \<open>
  What an operation does besides returning: the remote operations it attempts, in order,
  the lines it writes to the console, and whether it returns a value (\<open>Inr\<close>) or throws
  (\<open>Inl\<close>).
\<close>

datatype request =
    Select select_query
  | Insert_bookmark string string string
  | Delete_bookmark string
  | SignInWithOAuth string
  | Auth_signOut
  | Auth_getSession
  | Channel_subscribe string
  | Channel_unsubscribe string

datatype fault = Error string

datatype console_line =
    Console_warn string
  | Console_error string string
  | Console_log string payload

record 'a outcome =
  requests :: "request list"
  console :: "console_line list"
  returned :: "fault + 'a"

definition resolve :: "'a \<Rightarrow> 'a outcome" where
  "resolve v = \<lparr>requests = [], console = [], returned = Inr v\<rparr>"

definition throw :: "fault \<Rightarrow> 'a outcome" where
  "throw e = \<lparr>requests = [], console = [], returned = Inl e\<rparr>"

definition remote_call :: "request \<Rightarrow> 'a \<Rightarrow> 'a outcome" where
  "remote_call r answer = \<lparr>requests = [r], console = [], returned = Inr answer\<rparr>"

definition console_write :: "console_line \<Rightarrow> unit outcome" where
  "console_write l = \<lparr>requests = [], console = [l], returned = Inr ()\<rparr>"

text \<open>Sequencing: the second part runs only if the first did not throw.\<close>

definition and_then :: "'a outcome \<Rightarrow> ('a \<Rightarrow> 'b outcome) \<Rightarrow> 'b outcome" where
  "and_then m f =
     (case returned m of
        Inl e \<Rightarrow> \<lparr>requests = requests m, console = console m, returned = Inl e\<rparr>
      | Inr v \<Rightarrow>
          \<lparr>requests = requests m @ requests (f v),
           console = console m @ console (f v),
           returned = returned (f v)\<rparr>)"

section \<open>The store client: \<open>src/lib/supabase.ts\<close>\<close>

text \<open>
  \<open>createSupabaseClient\<close>: without both credentials the module-level \<open>supabase\<close> is
  \<open>null\<close>. The third argument stands for the remote collaborator that \<open>createClient\<close>
  connects to.
\<close>

definition createSupabaseClient :: "string \<Rightarrow> string \<Rightarrow> client \<Rightarrow> client option outcome" where
  "createSupabaseClient supabaseUrl supabaseAnonKey remote =
     (if supabaseUrl = [] \<or> supabaseAnonKey = [] then
        and_then (console_write (Console_warn ''Supabase credentials not configured. Using mock client.''))
          (\<lambda>_. resolve None)
      else resolve (Some remote))"

definition signInWithGoogle :: "client option \<Rightarrow> string response outcome" where
  "signInWithGoogle supabase =
     (case supabase of
        None \<Rightarrow> throw (Error ''Supabase not configured'')
      | Some c \<Rightarrow> remote_call (SignInWithOAuth ''google'') (auth_signInWithOAuth c ''google''))"

definition signOut :: "client option \<Rightarrow> string option outcome" where
  "signOut supabase =
     (case supabase of
        None \<Rightarrow> throw (Error ''Supabase not configured'')
      | Some c \<Rightarrow> remote_call Auth_signOut (auth_signOut c))"

text \<open>
  The query of \<open>getBookmarks\<close>:
  \<open>from('bookmarks').select('*').eq('user_id', userId).order('created_at', { ascending: false })\<close>.
\<close>

definition bookmarks_query :: "string \<Rightarrow> select_query" where
  "bookmarks_query userId =
     \<lparr>from_table = ''bookmarks'', columns = ''*'', eq_column = ''user_id'', eq_value = userId,
      order_column = ''created_at'', ascending = False\<rparr>"

definition getBookmarks :: "client option \<Rightarrow> string \<Rightarrow> bookmark list outcome" where
  "getBookmarks supabase userId =
     (case supabase of
        None \<Rightarrow> resolve []
      | Some c \<Rightarrow>
          and_then (remote_call (Select (bookmarks_query userId))
                      (from_select c (bookmarks_query userId)))
            (\<lambda>r. case error r of
                    Some e \<Rightarrow>
                      and_then (console_write (Console_error ''Error fetching bookmarks:'' e))
                        (\<lambda>_. resolve [])
                  | None \<Rightarrow> resolve (case data r of Some d \<Rightarrow> d | None \<Rightarrow> [])))"

definition addBookmark :: "client option \<Rightarrow> string \<Rightarrow> string \<Rightarrow> string \<Rightarrow> bookmark option outcome" where
  "addBookmark supabase userId title' url' =
     (case supabase of
        None \<Rightarrow> resolve None
      | Some c \<Rightarrow>
          and_then (remote_call (Insert_bookmark userId title' url') (from_bookmarks_insert c userId title' url'))
            (\<lambda>r. case error r of
                    Some e \<Rightarrow>
                      and_then (console_write (Console_error ''Error adding bookmark:'' e))
                        (\<lambda>_. resolve None)
                  | None \<Rightarrow> resolve (data r)))"

definition deleteBookmark :: "client option \<Rightarrow> string \<Rightarrow> bool outcome" where
  "deleteBookmark supabase bookmarkId =
     (case supabase of
        None \<Rightarrow> resolve False
      | Some c \<Rightarrow>
          and_then (remote_call (Delete_bookmark bookmarkId) (from_bookmarks_delete c bookmarkId))
            (\<lambda>err. case err of
                    Some e \<Rightarrow>
                      and_then (console_write (Console_error ''Error deleting bookmark:'' e))
                        (\<lambda>_. resolve False)
                  | None \<Rightarrow> resolve True))"

text \<open>
  \<open>subscribeToBookmarks\<close> returns the channel, which is identified here by the
  \<open>userId\<close> of its filter \<open>user_id=eq.${userId}\<close>; the callback is the one of \<open>Home\<close>.
\<close>

definition subscribeToBookmarks :: "client option \<Rightarrow> string \<Rightarrow> string outcome" where
  "subscribeToBookmarks supabase userId =
     (case supabase of
        None \<Rightarrow> throw (Error ''Supabase not initialized'')
      | Some c \<Rightarrow> remote_call (Channel_subscribe userId) userId)"

section \<open>The reconciliation layer: the \<open>Home\<close> component\<close>

text \<open>
  The three state updates of the subscription callback, as functions of the previous
  list (\<open>setBookmarks((prev) => ...)\<close>); any other event type leaves the list alone.
\<close>

definition realtime_callback :: "payload \<Rightarrow> bookmark list \<Rightarrow> bookmark list" where
  "realtime_callback p prev =
     (if eventType p = ''INSERT'' then new p # prev
      else if eventType p = ''DELETE'' then
        filter (\<lambda>b. bookmark_id b \<noteq> bookmark_id (old p)) prev
      else if eventType p = ''UPDATE'' then
        map (\<lambda>b. if bookmark_id b = bookmark_id (new p) then new p else b) prev
      else prev)"

text \<open>
  The state of \<open>Home\<close>: its four \<open>useState\<close> cells, the channel held by the
  subscription effect (the \<open>userId\<close> of its filter, \<open>None\<close> when the effect holds none),
  and the calls of \<open>loadBookmarks\<close> that are suspended at their \<open>await\<close>, each with the
  \<open>user.id\<close> it passed to \<open>getBookmarks\<close>.
\<close>

record home =
  user :: "user option"
  bookmarks :: "bookmark list"
  loading :: bool
  configError :: "string option"
  subscription :: "string option"
  in_flight :: "string list"

definition initial_home :: home where
  "initial_home =
     \<lparr>user = None, bookmarks = [], loading = True, configError = None, subscription = None,
      in_flight = []\<rparr>"

text \<open>
  \<open>loadBookmarks\<close> is split at its \<open>await\<close>. The call itself returns at once when there
  is no user, and otherwise calls \<open>getBookmarks(user.id)\<close> and suspends: the list is not
  touched. \<open>loadBookmarks_resumed\<close> is the rest, run when the answer lands:
  \<open>setBookmarks(data)\<close>, whoever the user is by then. The request of \<open>getBookmarks\<close> is
  counted where its answer is handled, so it comes after the requests of the step that
  made the call.
\<close>

definition loadBookmarks :: "client option \<Rightarrow> home \<Rightarrow> home outcome" where
  "loadBookmarks supabase s =
     (case user s of
        None \<Rightarrow> resolve s
      | Some u \<Rightarrow> resolve (s\<lparr>in_flight := in_flight s @ [uid u]\<rparr>))"

definition loadBookmarks_resumed :: "client option \<Rightarrow> string \<Rightarrow> home \<Rightarrow> home outcome" where
  "loadBookmarks_resumed supabase userId s =
     and_then (getBookmarks supabase userId) (\<lambda>d. resolve (s\<lparr>bookmarks := d\<rparr>))"

text \<open>
  The \<open>n\<close>-th suspended call of \<open>loadBookmarks\<close> resumes; the suspended calls may resume
  in any order.
\<close>

definition load_lands :: "client option \<Rightarrow> nat \<Rightarrow> home \<Rightarrow> home outcome" where
  "load_lands supabase n s =
     (if n < length (in_flight s) then
        loadBookmarks_resumed supabase (in_flight s ! n)
          (s\<lparr>in_flight := take n (in_flight s) @ drop (Suc n) (in_flight s)\<rparr>)
      else resolve s)"

text \<open>The effect "Load bookmarks when user changes".\<close>

definition load_effect :: "client option \<Rightarrow> home \<Rightarrow> home outcome" where
  "load_effect supabase s =
     (case user s of
        Some u \<Rightarrow> loadBookmarks supabase s
      | None \<Rightarrow> resolve (s\<lparr>bookmarks := []\<rparr>))"

text \<open>
  The effect "Subscribe to real-time updates" and its cleanup
  (\<open>subscription.unsubscribe()\<close>), which runs before the effect runs again.
\<close>

definition subscribe_effect :: "client option \<Rightarrow> home \<Rightarrow> home outcome" where
  "subscribe_effect supabase s =
     (case user s of
        None \<Rightarrow> resolve s
      | Some u \<Rightarrow>
          if supabase = None then resolve s
          else and_then (subscribeToBookmarks supabase (uid u))
                 (\<lambda>ch. resolve (s\<lparr>subscription := Some ch\<rparr>)))"

definition subscribe_cleanup :: "home \<Rightarrow> home outcome" where
  "subscribe_cleanup s =
     (case subscription s of
        None \<Rightarrow> resolve s
      | Some ch \<Rightarrow>
          and_then (remote_call (Channel_unsubscribe ch) ())
            (\<lambda>_. resolve (s\<lparr>subscription := None\<rparr>)))"

text \<open>
  \<open>setUser\<close> together with the effects that depend on \<open>[user]\<close>: a value equal to the
  current one changes nothing; otherwise the cleanup of the subscription effect runs,
  then both effects in the order of the source. The awaited calls of
  \<open>handleSignOut\<close>, \<open>handleAddBookmark\<close> and \<open>handleDeleteBookmark\<close> below are
  given with their answer landing within the handler's step.
\<close>

definition setUser :: "client option \<Rightarrow> user option \<Rightarrow> home \<Rightarrow> home outcome" where
  "setUser supabase u s =
     (if u = user s then resolve s
      else and_then (subscribe_cleanup (s\<lparr>user := u\<rparr>))
             (\<lambda>s1. and_then (load_effect supabase s1) (subscribe_effect supabase)))"

text \<open>The mount effect: \<open>checkUser\<close>.\<close>

definition checkUser :: "client option \<Rightarrow> home \<Rightarrow> home outcome" where
  "checkUser supabase s =
     (case supabase of
        None \<Rightarrow>
          resolve (s\<lparr>configError :=
                       Some ''Supabase is not configured. Please set up your environment variables.'',
                     loading := False\<rparr>)
      | Some c \<Rightarrow>
          and_then (remote_call Auth_getSession (auth_getSession c))
            (\<lambda>session. and_then (setUser supabase session s)
               (\<lambda>s1. resolve (s1\<lparr>loading := False\<rparr>))))"

definition handleSignIn :: "client option \<Rightarrow> home \<Rightarrow> home outcome" where
  "handleSignIn supabase s = and_then (signInWithGoogle supabase) (\<lambda>_. resolve s)"

definition handleSignOut :: "client option \<Rightarrow> home \<Rightarrow> home outcome" where
  "handleSignOut supabase s =
     and_then (signOut supabase)
       (\<lambda>_. and_then (setUser supabase None s) (\<lambda>s1. resolve (s1\<lparr>bookmarks := []\<rparr>)))"

definition handleAddBookmark :: "client option \<Rightarrow> string \<Rightarrow> string \<Rightarrow> home \<Rightarrow> home outcome" where
  "handleAddBookmark supabase title' url' s =
     (case user s of
        None \<Rightarrow> resolve s
      | Some u \<Rightarrow>
          and_then (addBookmark supabase (uid u) title' url')
            (\<lambda>newBookmark. case newBookmark of
                    Some b \<Rightarrow> resolve (s\<lparr>bookmarks := b # bookmarks s\<rparr>)
                  | None \<Rightarrow> resolve s))"

definition handleDeleteBookmark :: "client option \<Rightarrow> string \<Rightarrow> home \<Rightarrow> home outcome" where
  "handleDeleteBookmark supabase ident s =
     and_then (deleteBookmark supabase ident)
       (\<lambda>success. if success
                   then resolve (s\<lparr>bookmarks := filter (\<lambda>b. bookmark_id b \<noteq> ident) (bookmarks s)\<rparr>)
                   else resolve s)"

text \<open>
  The subscription callback is handed a payload: it logs it and applies the update, with
  no look at the user or the channel.
\<close>

definition deliver :: "payload \<Rightarrow> home \<Rightarrow> home outcome" where
  "deliver p s =
     and_then (console_write (Console_log ''Real-time update received:'' p))
       (\<lambda>_. resolve (s\<lparr>bookmarks := realtime_callback p (bookmarks s)\<rparr>))"

section \<open>Events\<close>

text \<open>
  What can happen to a mounted \<open>Home\<close>: the identity collaborator reports a session
  (\<open>onAuthStateChange\<close>, a listener that is registered only with a configured client),
  the callback is handed a push event, a suspended call of \<open>loadBookmarks\<close> resumes, or
  the user acts. A handler that throws is a rejected promise: nobody catches it and the
  state is as before.
\<close>

datatype event =
    Auth_state_change "user option"
  | Push payload
  | Load_lands nat
  | Click_sign_in
  | Click_sign_out
  | Submit_bookmark string string
  | Click_delete string

fun step :: "client option \<Rightarrow> event \<Rightarrow> home \<Rightarrow> home outcome" where
  "step supabase (Auth_state_change session) s =
     (if supabase = None then resolve s else setUser supabase session s)"
| "step supabase (Push p) s = deliver p s"
| "step supabase (Load_lands n) s = load_lands supabase n s"
| "step supabase Click_sign_in s = handleSignIn supabase s"
| "step supabase Click_sign_out s = handleSignOut supabase s"
| "step supabase (Submit_bookmark title' url') s = handleAddBookmark supabase title' url' s"
| "step supabase (Click_delete ident) s = handleDeleteBookmark supabase ident s"

definition state_after :: "home \<Rightarrow> home outcome \<Rightarrow> home" where
  "state_after s m = (case returned m of Inl e \<Rightarrow> s | Inr s' \<Rightarrow> s')"

fun run :: "client option \<Rightarrow> event list \<Rightarrow> home \<Rightarrow> home" where
  "run supabase [] s = s"
| "run supabase (ev # evs) s = run supabase evs (state_after s (step supabase ev s))"

section \<open>The contract of the remote collaborator\<close>

text \<open>
  The columns of the table \<open>bookmarks\<close>, by name.
\<close>

definition column :: "string \<Rightarrow> (bookmark \<Rightarrow> string) option" where
  "column name =
     (if name = ''id'' then Some bookmark_id
      else if name = ''user_id'' then Some user_id
      else if name = ''title'' then Some title
      else if name = ''url'' then Some url
      else if name = ''created_at'' then Some created_at
      else None)"

text \<open>
  The answer of a store that holds the table \<open>rows\<close> to a select query: the rows whose
  \<open>eq_column\<close> is \<open>eq_value\<close>, sorted by \<open>order_column\<close>, ascending or descending as
  the query says. \<open>collate\<close> is the order of the store on the values of a column: it maps
  a value to its place in that order.
\<close>

definition select_answer ::
  "(string \<Rightarrow> 'k::linorder) \<Rightarrow> bookmark list \<Rightarrow> select_query \<Rightarrow> bookmark list response" where
  "select_answer collate rows q =
     (case column (eq_column q) of
        None \<Rightarrow> \<lparr>data = None, error = Some ''column does not exist''\<rparr>
      | Some f \<Rightarrow>
          (case column (order_column q) of
             None \<Rightarrow> \<lparr>data = None, error = Some ''column does not exist''\<rparr>
           | Some g \<Rightarrow>
               if from_table q \<noteq> ''bookmarks'' then
                 \<lparr>data = None, error = Some ''relation does not exist''\<rparr>
               else
                 \<lparr>data = Some
                    (let matching = filter (\<lambda>b. f b = eq_value q) rows;
                         sorted_rows = sort_key (\<lambda>b. collate (g b)) matching
                     in if ascending q then sorted_rows else rev sorted_rows),
                  error = None\<rparr>))"



section \<open>Example data\<close>

definition b1 :: bookmark where
  "b1 = \<lparr>bookmark_id = ''b1'', user_id = ''u1'', title = ''Example'',
          url = ''https://example.com'', created_at = ''2024-01-10T09:00:00Z''\<rparr>"

definition b2 :: bookmark where
  "b2 = \<lparr>bookmark_id = ''b2'', user_id = ''u1'', title = ''Docs'',
          url = ''https://docs.example.com'', created_at = ''2024-01-20T09:00:00Z''\<rparr>"

definition b3 :: bookmark where
  "b3 = \<lparr>bookmark_id = ''b3'', user_id = ''u2'', title = ''News'',
          url = ''https://news.example.com'', created_at = ''2024-01-30T09:00:00Z''\<rparr>"

definition alice :: user where
  "alice = \<lparr>uid = ''u1'', email = ''alice@example.com'', object_ref = 100\<rparr>"


definition insert_b1 :: payload where
  "insert_b1 = \<lparr>eventType = ''INSERT'', new = b1, old = b1\<rparr>"

definition update_b1 :: payload where
  "update_b1 = \<lparr>eventType = ''UPDATE'', new = b1\<lparr>title := ''Renamed''\<rparr>, old = b1\<rparr>"

text \<open>
  A remote that answers every call with success over the table \<open>rows\<close>, ordering the
  values of a column as strings; an inserted row gets the identifier \<open>fresh\<close> and the
  timestamp \<open>now\<close>.
\<close>

definition table_remote :: "bookmark list \<Rightarrow> string \<Rightarrow> string \<Rightarrow> client" where
  "table_remote rows fresh now =
     \<lparr>from_select = select_answer (\<lambda>v. v) rows,
      from_bookmarks_insert = (\<lambda>userId t l.
         \<lparr>data = Some \<lparr>bookmark_id = fresh, user_id = userId, title = t, url = l, created_at = now\<rparr>,
          error = None\<rparr>),
      from_bookmarks_delete = (\<lambda>i. None),
      auth_signInWithOAuth = (\<lambda>provider. \<lparr>data = Some ''https://accounts.example.com'', error = None\<rparr>),
      auth_signOut = None,
      auth_getSession = None\<rparr>"

text \<open>A remote that answers every call with a failure.\<close>

definition failing_remote :: client where
  "failing_remote =
     \<lparr>from_select = (\<lambda>q. \<lparr>data = None, error = Some ''network''\<rparr>),
      from_bookmarks_insert = (\<lambda>userId t l. \<lparr>data = None, error = Some ''network''\<rparr>),
      from_bookmarks_delete = (\<lambda>i. Some ''network''),
      auth_signInWithOAuth = (\<lambda>provider. \<lparr>data = None, error = Some ''network''\<rparr>),
      auth_signOut = Some ''network'',
      auth_getSession = None\<rparr>"

definition alice_home :: home where
  "alice_home =
     \<lparr>user = Some alice, bookmarks = [b1], loading = False, configError = None,
      subscription = Some ''u1'', in_flight = []\<rparr>"

definition alice_fresh_home :: home where
  "alice_fresh_home =
     \<lparr>user = Some alice, bookmarks = [], loading = False, configError = None,
      subscription = Some ''u1'', in_flight = []\<rparr>"

text \<open>
  \<open>alice\<close> signs in and her (empty) list lands; she submits a bookmark, and the
  callback is handed the insert event of the row that the remote created for it.
\<close>

definition alice_session :: "event list" where
  "alice_session =
     [Auth_state_change (Some alice),
      Load_lands 0,
      Submit_bookmark ''Example'' ''https://example.com'',
      Push insert_b1]"


definition signed_out_home :: home where
  "signed_out_home =
     \<lparr>user = None, bookmarks = [], loading = False, configError = None, subscription = None,
      in_flight = []\<rparr>"

section \<open>Basic facts\<close>

lemmas outcome_defs = resolve_def throw_def remote_call_def console_write_def and_then_def

lemma filter_absent:
  "ident \<notin> set (map bookmark_id prev) \<Longrightarrow> filter (\<lambda>b. bookmark_id b \<noteq> ident) prev = prev"
  by (induction prev) auto

lemma filter_removes:
  "ident \<notin> set (map bookmark_id (filter (\<lambda>b. bookmark_id b \<noteq> ident) prev))"
  by (induction prev) auto

lemma map_absent:
  "ident \<notin> set (map bookmark_id prev) \<Longrightarrow>
     map (\<lambda>b. if bookmark_id b = ident then n else b) prev = prev"
  by (induction prev) auto

lemma select_answer_bookmarks_query:
  "select_answer collate rows (bookmarks_query userId) =
     \<lparr>data = Some (rev (sort_key (\<lambda>b. collate (created_at b))
                           (filter (\<lambda>b. user_id b = userId) rows))),
      error = None\<rparr>"
  by (simp add: select_answer_def bookmarks_query_def column_def)



lemma getBookmarks_returns: "\<exists>rows. returned (getBookmarks supabase userId) = Inr rows"
  by (simp add: getBookmarks_def outcome_defs split: option.splits)

lemma count_list_filter:
  "count_list (filter P xs) b = (if P b then count_list xs b else 0)"
  by (induction xs) auto

lemma count_list_insort_key: "count_list (insort_key k x xs) b = count_list (x # xs) b"
  by (induction xs) auto

lemma count_list_sort_key: "count_list (sort_key k xs) b = count_list xs b"
  by (induction xs) (simp_all add: count_list_insort_key)

lemma alice_list:
  "getBookmarks (Some (table_remote [b1, b3, b2] ''b9'' ''2024-02-01T09:00:00Z'')) ''u1''
     = \<lparr>requests = [Select (bookmarks_query ''u1'')], console = [], returned = Inr [b2, b1]\<rparr>"
  by (simp add: getBookmarks_def outcome_defs table_remote_def select_answer_bookmarks_query
      b1_def b2_def b3_def)


lemma addBookmark_returns: "\<exists>r. returned (addBookmark supabase userId t l) = Inr r"
  by (simp add: addBookmark_def outcome_defs split: option.splits)

section \<open>Remote update events\<close>

text \<open>
  Claim C6. A remote update event replaces the record that has the event's id where it
  stands: the list keeps its length, every position that holds the id now holds the
  event's record, every other position is as before. When no record has the id the list
  is unchanged, so an update event never adds an entry.
\<close>

theorem update_event_replaces_in_place:
  assumes "eventType p = ''UPDATE''"
  shows "length (realtime_callback p prev) = length prev
    \<and> (\<forall>i < length prev. realtime_callback p prev ! i =
           (if bookmark_id (prev ! i) = bookmark_id (new p) then new p else prev ! i))
    \<and> (bookmark_id (new p) \<notin> set (map bookmark_id prev) \<longrightarrow> realtime_callback p prev = prev)"
  using assms by (simp add: realtime_callback_def map_absent)

theorem update_event_replaces_in_place_witness:
  "eventType update_b1 = ''UPDATE''
   \<and> realtime_callback update_b1 [b2, b1] = [b2, b1\<lparr>title := ''Renamed''\<rparr>]
   \<and> realtime_callback update_b1 [b2] = [b2]"
  using update_event_replaces_in_place [of update_b1 "[b2, b1]"]
    update_event_replaces_in_place [of update_b1 "[b2]"]
  by (simp add: update_b1_def b1_def b2_def realtime_callback_def)

section \<open>The local delete request\<close>

text \<open>
  Claim C2, as stated, fails: \<open>handleDeleteBookmark\<close> filters the list only under
  \<open>if (success)\<close>. With a remote that reports a failure the state is returned as it was
  and the record is still in the list.
\<close>

theorem delete_failure_keeps_record:
  "returned (handleDeleteBookmark (Some failing_remote) ''b1'' alice_home) = Inr alice_home
   \<and> ''b1'' \<in> set (map bookmark_id (bookmarks alice_home))"
  by (simp add: handleDeleteBookmark_def deleteBookmark_def outcome_defs failing_remote_def
      alice_home_def b1_def)

text \<open>
  Claim C2, amended. When the remote call reports success, the list after
  \<open>handleDeleteBookmark ident\<close> is the previous list without the records of that id, so
  the id is absent from it. When the remote call reports a failure, or the client is
  not configured, the state is unchanged.
\<close>

theorem handleDeleteBookmark_effect:
  "(supabase = Some c \<and> from_bookmarks_delete c ident = None \<longrightarrow>
      returned (handleDeleteBookmark supabase ident s)
        = Inr (s\<lparr>bookmarks := filter (\<lambda>b. bookmark_id b \<noteq> ident) (bookmarks s)\<rparr>)
      \<and> ident \<notin> set (map bookmark_id
                         (bookmarks (state_after s (handleDeleteBookmark supabase ident s)))))
   \<and> (supabase = None \<or> (supabase = Some c \<and> from_bookmarks_delete c ident \<noteq> None) \<longrightarrow>
      returned (handleDeleteBookmark supabase ident s) = Inr s)"
  using filter_removes [of ident "bookmarks s"]
  by (auto simp add: handleDeleteBookmark_def deleteBookmark_def outcome_defs state_after_def)

theorem handleDeleteBookmark_effect_witness:
  "returned (handleDeleteBookmark (Some (table_remote [b1] ''b9'' ''2024-02-01T09:00:00Z'')) ''b1'' alice_home)
     = Inr (alice_home\<lparr>bookmarks := []\<rparr>)
   \<and> returned (handleDeleteBookmark (Some failing_remote) ''b1'' alice_home) = Inr alice_home
   \<and> returned (handleDeleteBookmark None ''b1'' alice_home) = Inr alice_home"
  using handleDeleteBookmark_effect
      [of "Some (table_remote [b1] ''b9'' ''2024-02-01T09:00:00Z'')" "table_remote [b1] ''b9'' ''2024-02-01T09:00:00Z''" "''b1''" alice_home]
    handleDeleteBookmark_effect [of "Some failing_remote" failing_remote "''b1''" alice_home]
    handleDeleteBookmark_effect [of None failing_remote "''b1''" alice_home]
  by (simp add: table_remote_def failing_remote_def alice_home_def b1_def)

section \<open>Listing\<close>

text \<open>
  Claim C7. \<open>getBookmarks\<close> never throws: it always returns a list. When the remote
  reports an error it writes the error to the console and returns the empty list. The
  one request it makes is the select query on \<open>bookmarks\<close> with the filter
  \<open>user_id = userId\<close>, ordered by \<open>created_at\<close>, not ascending, and it returns the
  answer as it is. So with a store that answers select queries over its table \<open>rows\<close>,
  whatever the order \<open>collate\<close> of the store on column values is, the result holds
  exactly the rows of \<open>userId\<close>, each as often as the table does, by \<open>created_at\<close>
  descending.
\<close>

theorem getBookmarks_contract:
  "(\<exists>d. returned (getBookmarks supabase userId) = Inr d)
   \<and> (supabase = Some c \<longrightarrow>
        requests (getBookmarks supabase userId)
          = [Select \<lparr>from_table = ''bookmarks'', columns = ''*'', eq_column = ''user_id'',
                     eq_value = userId, order_column = ''created_at'', ascending = False\<rparr>])
   \<and> (supabase = Some c \<and> error (from_select c (bookmarks_query userId)) = Some e \<longrightarrow>
        returned (getBookmarks supabase userId) = Inr []
        \<and> console (getBookmarks supabase userId) = [Console_error ''Error fetching bookmarks:'' e])
   \<and> (supabase = Some c \<and> (\<forall>q. from_select c q = select_answer collate rows q) \<longrightarrow>
        (\<exists>d. returned (getBookmarks supabase userId) = Inr d
           \<and> set d = {b \<in> set rows. user_id b = userId}
           \<and> (\<forall>b. count_list d b = (if user_id b = userId then count_list rows b else 0))
           \<and> sorted (rev (map (\<lambda>b. collate (created_at b)) d))))"
proof -
  have p1: "\<exists>d. returned (getBookmarks supabase userId) = Inr d"
    by (rule getBookmarks_returns)
  have p2: "supabase = Some c \<longrightarrow>
        requests (getBookmarks supabase userId)
          = [Select \<lparr>from_table = ''bookmarks'', columns = ''*'', eq_column = ''user_id'',
                     eq_value = userId, order_column = ''created_at'', ascending = False\<rparr>]"
    by (simp add: getBookmarks_def bookmarks_query_def outcome_defs split: option.splits)
  have p3: "supabase = Some c \<and> error (from_select c (bookmarks_query userId)) = Some e \<longrightarrow>
        returned (getBookmarks supabase userId) = Inr []
        \<and> console (getBookmarks supabase userId) = [Console_error ''Error fetching bookmarks:'' e]"
    by (simp add: getBookmarks_def outcome_defs)
  have p4: "supabase = Some c \<and> (\<forall>q. from_select c q = select_answer collate rows q) \<longrightarrow>
        (\<exists>d. returned (getBookmarks supabase userId) = Inr d
           \<and> set d = {b \<in> set rows. user_id b = userId}
           \<and> (\<forall>b. count_list d b = (if user_id b = userId then count_list rows b else 0))
           \<and> sorted (rev (map (\<lambda>b. collate (created_at b)) d)))"
  proof
    assume a: "supabase = Some c \<and> (\<forall>q. from_select c q = select_answer collate rows q)"
    let ?d = "rev (sort_key (\<lambda>b. collate (created_at b)) (filter (\<lambda>b. user_id b = userId) rows))"
    have "from_select c (bookmarks_query userId) = \<lparr>data = Some ?d, error = None\<rparr>"
      using a by (simp add: select_answer_bookmarks_query)
    then have r: "returned (getBookmarks supabase userId) = Inr ?d"
      using a by (simp add: getBookmarks_def outcome_defs)
    have st: "set ?d = {b \<in> set rows. user_id b = userId}"
      by auto
    have cnt: "\<forall>b. count_list ?d b = (if user_id b = userId then count_list rows b else 0)"
      by (simp add: count_list_sort_key count_list_filter)
    have so: "sorted (rev (map (\<lambda>b. collate (created_at b)) ?d))"
      by (simp add: rev_map)
    show "\<exists>d. returned (getBookmarks supabase userId) = Inr d
           \<and> set d = {b \<in> set rows. user_id b = userId}
           \<and> (\<forall>b. count_list d b = (if user_id b = userId then count_list rows b else 0))
           \<and> sorted (rev (map (\<lambda>b. collate (created_at b)) d))"
      using r st cnt so by blast
  qed
  show ?thesis
    by (rule conjI [OF p1 conjI [OF p2 conjI [OF p3 p4]]])
qed

theorem getBookmarks_contract_witness:
  "(\<forall>q. from_select (table_remote [b1, b3, b2] ''b9'' ''2024-02-01T09:00:00Z'') q
          = select_answer (\<lambda>v. v) [b1, b3, b2] q)
   \<and> returned (getBookmarks (Some (table_remote [b1, b3, b2] ''b9'' ''2024-02-01T09:00:00Z'')) ''u1'')
       = Inr [b2, b1]
   \<and> error (from_select failing_remote (bookmarks_query ''u1'')) = Some ''network''
   \<and> returned (getBookmarks (Some failing_remote) ''u1'') = Inr []
   \<and> console (getBookmarks (Some failing_remote) ''u1'')
       = [Console_error ''Error fetching bookmarks:'' ''network'']"
proof -
  let ?T = "table_remote [b1, b3, b2] ''b9'' ''2024-02-01T09:00:00Z''"
  have w1: "\<forall>q. from_select ?T q = select_answer (\<lambda>v. v) [b1, b3, b2] q"
    by (simp add: table_remote_def)
  have w2: "returned (getBookmarks (Some ?T) ''u1'') = Inr [b2, b1]"
    by (simp add: alice_list)
  have w3: "error (from_select failing_remote (bookmarks_query ''u1'')) = Some ''network''"
    by (simp add: failing_remote_def)
  have w4: "returned (getBookmarks (Some failing_remote) ''u1'') = Inr []"
    "console (getBookmarks (Some failing_remote) ''u1'')
       = [Console_error ''Error fetching bookmarks:'' ''network'']"
    by (simp_all add: getBookmarks_def outcome_defs failing_remote_def)
  show ?thesis
    using getBookmarks_contract [of "Some ?T" "''u1''" ?T "''x''" "\<lambda>v. v" "[b1, b3, b2]"]
      getBookmarks_contract [of "Some failing_remote" "''u1''" failing_remote "''network''"
          "\<lambda>v. v" "[]"]
      w1 w2 w3 w4
    by blast
qed

section \<open>The local create request\<close>

text \<open>
  Claim C8. \<open>addBookmark\<close> never throws. When the remote reports an error it writes
  the error to the console and returns \<open>null\<close>. When \<open>addBookmark\<close> returns \<open>null\<close>,
  \<open>handleAddBookmark\<close> returns the state as it was: nothing is inserted.
\<close>

theorem failed_create_changes_nothing:
  "(\<exists>r. returned (addBookmark supabase userId t l) = Inr r)
   \<and> (supabase = Some c \<and> error (from_bookmarks_insert c userId t l) = Some e \<longrightarrow>
        returned (addBookmark supabase userId t l) = Inr None
        \<and> console (addBookmark supabase userId t l) = [Console_error ''Error adding bookmark:'' e])
   \<and> (user s = Some usr \<and> returned (addBookmark supabase (uid usr) t l) = Inr None \<longrightarrow>
        returned (handleAddBookmark supabase t l s) = Inr s)"
  using addBookmark_returns [of supabase userId t l]
  by (simp add: handleAddBookmark_def addBookmark_def outcome_defs split: option.splits)

theorem failed_create_changes_nothing_witness:
  "returned (addBookmark (Some failing_remote) ''u1'' ''Example'' ''https://example.com'') = Inr None
   \<and> returned (handleAddBookmark (Some failing_remote) ''Example'' ''https://example.com'' alice_home)
       = Inr alice_home"
  using failed_create_changes_nothing
      [of "Some failing_remote" "''u1''" "''Example''" "''https://example.com''" failing_remote
          "''network''" alice_home alice]
  by (simp add: failing_remote_def alice_home_def alice_def)

text \<open>
  Claim C10. With no principal signed in, \<open>handleAddBookmark\<close> and \<open>loadBookmarks\<close>
  attempt no remote operation, whatever the client is, and return the state as it was.
\<close>

theorem no_principal_no_effect:
  "user s = None \<Longrightarrow>
     requests (handleAddBookmark supabase t l s) = []
     \<and> returned (handleAddBookmark supabase t l s) = Inr s
     \<and> requests (loadBookmarks supabase s) = []
     \<and> returned (loadBookmarks supabase s) = Inr s"
  by (simp add: handleAddBookmark_def loadBookmarks_def outcome_defs)

theorem no_principal_no_effect_witness:
  "user signed_out_home = None
   \<and> requests (handleAddBookmark (Some (table_remote [b1] ''b9'' ''2024-02-01T09:00:00Z'')) ''Example''
                 ''https://example.com'' signed_out_home) = []
   \<and> returned (handleAddBookmark (Some (table_remote [b1] ''b9'' ''2024-02-01T09:00:00Z'')) ''Example''
                 ''https://example.com'' signed_out_home) = Inr signed_out_home
   \<and> requests (loadBookmarks (Some (table_remote [b1] ''b9'' ''2024-02-01T09:00:00Z'')) signed_out_home) = []
   \<and> returned (loadBookmarks (Some (table_remote [b1] ''b9'' ''2024-02-01T09:00:00Z'')) signed_out_home)
       = Inr signed_out_home"
  using no_principal_no_effect
      [of signed_out_home "Some (table_remote [b1] ''b9'' ''2024-02-01T09:00:00Z'')" "''Example''" "''https://example.com''"]
  by (simp add: signed_out_home_def)

section \<open>The unconfigured client\<close>

text \<open>
  Claim C9, as stated, fails: without a client \<open>signInWithGoogle\<close> throws.
\<close>

theorem unconfigured_sign_in_throws:
  "returned (signInWithGoogle None) = Inl (Error ''Supabase not configured'')"
  by (simp add: signInWithGoogle_def outcome_defs)

text \<open>
  Claim C9, amended. Without both credentials the client is \<open>null\<close>. Then
  \<open>getBookmarks\<close>, \<open>addBookmark\<close> and \<open>deleteBookmark\<close> return the empty list,
  \<open>null\<close> and \<open>false\<close>; \<open>signInWithGoogle\<close>, \<open>signOut\<close> and \<open>subscribeToBookmarks\<close>
  throw an error; none of the six attempts a remote operation. \<open>Home\<close> records the
  configuration error on mount, and its subscription effect does not call
  \<open>subscribeToBookmarks\<close>.
\<close>

theorem unconfigured_operations:
  "returned (createSupabaseClient [] key remote) = Inr None
   \<and> returned (createSupabaseClient url' [] remote) = Inr None
   \<and> getBookmarks None userId = \<lparr>requests = [], console = [], returned = Inr []\<rparr>
   \<and> addBookmark None userId t l = \<lparr>requests = [], console = [], returned = Inr None\<rparr>
   \<and> deleteBookmark None ident = \<lparr>requests = [], console = [], returned = Inr False\<rparr>
   \<and> signInWithGoogle None
       = \<lparr>requests = [], console = [], returned = Inl (Error ''Supabase not configured'')\<rparr>
   \<and> signOut None
       = \<lparr>requests = [], console = [], returned = Inl (Error ''Supabase not configured'')\<rparr>
   \<and> subscribeToBookmarks None userId
       = \<lparr>requests = [], console = [], returned = Inl (Error ''Supabase not initialized'')\<rparr>
   \<and> checkUser None s
       = \<lparr>requests = [], console = [],
          returned = Inr (s\<lparr>configError :=
                              Some ''Supabase is not configured. Please set up your environment variables.'',
                            loading := False\<rparr>)\<rparr>
   \<and> subscribe_effect None s = \<lparr>requests = [], console = [], returned = Inr s\<rparr>"
  by (simp add: createSupabaseClient_def getBookmarks_def addBookmark_def deleteBookmark_def
      signInWithGoogle_def signOut_def subscribeToBookmarks_def checkUser_def subscribe_effect_def
      outcome_defs split: option.splits)

section \<open>Principal change\<close>


lemma subscribe_cleanup_eq:
  "returned (subscribe_cleanup s) = Inr (s\<lparr>subscription := None\<rparr>)"
  by (simp add: subscribe_cleanup_def outcome_defs split: option.splits)

lemma load_effect_eq:
  "returned (load_effect supabase s) =
     Inr (case user s of
            None \<Rightarrow> s\<lparr>bookmarks := []\<rparr>
          | Some u \<Rightarrow> s\<lparr>in_flight := in_flight s @ [uid u]\<rparr>)"
  by (simp add: load_effect_def loadBookmarks_def outcome_defs split: option.splits)

lemma subscribe_effect_eq:
  "returned (subscribe_effect supabase s) =
     Inr (s\<lparr>subscription := (case user s of None \<Rightarrow> subscription s
                          | Some u \<Rightarrow> if supabase = None then subscription s else Some (uid u))\<rparr>)"
  by (auto simp add: subscribe_effect_def subscribeToBookmarks_def outcome_defs split: option.splits)

lemma setUser_change:
  "u \<noteq> user s \<Longrightarrow>
   returned (setUser supabase u s) =
     Inr (case u of
            None \<Rightarrow> s\<lparr>user := None, subscription := None, bookmarks := []\<rparr>
          | Some usr \<Rightarrow>
              s\<lparr>user := u,
                subscription := (if supabase = None then None else Some (uid usr)),
                in_flight := in_flight s @ [uid usr]\<rparr>)"
  by (simp add: setUser_def and_then_def subscribe_cleanup_eq load_effect_eq subscribe_effect_eq
      split: option.splits)

lemma setUser_same: "setUser supabase (user s) s = resolve s"
  by (simp add: setUser_def)



lemma loadBookmarks_resumed_eq:
  "returned (getBookmarks supabase userId) = Inr d \<Longrightarrow>
     returned (loadBookmarks_resumed supabase userId s) = Inr (s\<lparr>bookmarks := d\<rparr>)
     \<and> requests (loadBookmarks_resumed supabase userId s) = requests (getBookmarks supabase userId)"
  by (simp add: loadBookmarks_resumed_def and_then_def resolve_def)




section \<open>Remote insert and delete events\<close>

text \<open>
  Claim C1. The claim asks that an insert event applied twice gives the state of applying
  it once. The \<open>INSERT\<close> branch puts \<open>payload.new\<close> in front of the list without
  looking for its id: on the empty list, one application gives \<open>[b1]\<close> and two give
  \<open>[b1, b1]\<close>.
\<close>

theorem insert_event_twice_duplicates: 
  "realtime_callback insert_b1 [] = [b1]
   \<and> realtime_callback insert_b1 (realtime_callback insert_b1 []) = [b1, b1]
   \<and> realtime_callback insert_b1 (realtime_callback insert_b1 []) \<noteq> realtime_callback insert_b1 []"
  by (simp add: realtime_callback_def insert_b1_def)

text \<open>
  The delete half of the claim holds: a delete event applied twice is the same as once,
  and it changes nothing when the id is absent. An insert event puts the record at the
  head.
\<close>

lemma delete_event_idempotent:
  "eventType p = ''DELETE'' \<Longrightarrow>
     realtime_callback p (realtime_callback p prev) = realtime_callback p prev"
  by (simp add: realtime_callback_def)

lemma delete_event_absent:
  "eventType p = ''DELETE'' \<Longrightarrow> bookmark_id (old p) \<notin> set (map bookmark_id prev) \<Longrightarrow>
     realtime_callback p prev = prev"
  by (simp add: realtime_callback_def filter_absent)

lemma insert_event_prepends:
  "eventType p = ''INSERT'' \<Longrightarrow> realtime_callback p prev = new p # prev"
  by (simp add: realtime_callback_def)

section \<open>A create followed by its insert event\<close>

lemma create_b1:
  "addBookmark (Some (table_remote [] ''b1'' ''2024-01-10T09:00:00Z'')) ''u1'' ''Example''
       ''https://example.com''
     = \<lparr>requests = [Insert_bookmark ''u1'' ''Example'' ''https://example.com''], console = [],
        returned = Inr (Some b1)\<rparr>"
  by (simp add: addBookmark_def outcome_defs table_remote_def b1_def)

lemma handleAddBookmark_success:
  "user s = Some usr \<Longrightarrow> returned (addBookmark supabase (uid usr) t l) = Inr (Some b) \<Longrightarrow>
     returned (handleAddBookmark supabase t l s) = Inr (s\<lparr>bookmarks := b # bookmarks s\<rparr>)"
  by (simp add: handleAddBookmark_def and_then_def resolve_def)

lemma deliver_eq:
  "returned (deliver p s) = Inr (s\<lparr>bookmarks := realtime_callback p (bookmarks s)\<rparr>)"
  by (simp add: deliver_def outcome_defs)

text \<open>
  Claim C3. The claim asks that after a successful create and its insert event the id
  of the returned record is in the list exactly once. \<open>alice\<close> is signed in with an
  empty list; the create succeeds and \<open>handleAddBookmark\<close> puts the returned record
  \<open>b1\<close> at the head; the callback is then handed the insert event of \<open>b1\<close> and puts
  it at the head again: the id \<open>b1\<close> is in the list twice.
\<close>

theorem create_then_insert_event_duplicates:
  "returned (handleAddBookmark (Some (table_remote [] ''b1'' ''2024-01-10T09:00:00Z''))
      ''Example'' ''https://example.com'' alice_fresh_home)
     = Inr (alice_fresh_home\<lparr>bookmarks := [b1]\<rparr>)
   \<and> returned (deliver insert_b1 (alice_fresh_home\<lparr>bookmarks := [b1]\<rparr>))
       = Inr (alice_fresh_home\<lparr>bookmarks := [b1, b1]\<rparr>)
   \<and> count_list (map bookmark_id (bookmarks (alice_fresh_home\<lparr>bookmarks := [b1, b1]\<rparr>))) ''b1'' = 2"
proof -
  let ?R = "Some (table_remote [] ''b1'' ''2024-01-10T09:00:00Z'')"
  have u: "user alice_fresh_home = Some alice" "uid alice = ''u1''"
    "bookmarks alice_fresh_home = []"
    by (simp_all add: alice_fresh_home_def alice_def)
  have a: "returned (handleAddBookmark ?R ''Example'' ''https://example.com'' alice_fresh_home)
       = Inr (alice_fresh_home\<lparr>bookmarks := [b1]\<rparr>)"
    using handleAddBookmark_success
        [of alice_fresh_home alice ?R "''Example''" "''https://example.com''" b1]
    by (simp add: u create_b1)
  have d: "returned (deliver insert_b1 (alice_fresh_home\<lparr>bookmarks := [b1]\<rparr>))
       = Inr (alice_fresh_home\<lparr>bookmarks := [b1, b1]\<rparr>)"
    by (simp add: deliver_eq realtime_callback_def insert_b1_def)
  show ?thesis using a d by (simp add: b1_def)
qed

text \<open>
  Claim C4. The claim asks that no reachable list holds two records of one id. From the
  mounted component, \<open>alice\<close> signs in and her empty list lands, she submits a
  bookmark, and the callback is handed the insert event of the created row: she is the
  current principal and the list holds the id \<open>b1\<close> twice.
\<close>

theorem session_reaches_duplicate_ids:
  "user (run (Some (table_remote [] ''b1'' ''2024-01-10T09:00:00Z'')) alice_session initial_home)
     = Some alice
   \<and> map bookmark_id
         (bookmarks (run (Some (table_remote [] ''b1'' ''2024-01-10T09:00:00Z'')) alice_session
                       initial_home))
       = [''b1'', ''b1'']
   \<and> \<not> distinct (map bookmark_id
         (bookmarks (run (Some (table_remote [] ''b1'' ''2024-01-10T09:00:00Z'')) alice_session
                       initial_home)))"
proof -
  let ?R = "Some (table_remote [] ''b1'' ''2024-01-10T09:00:00Z'')"
  let ?s0 = "\<lparr>user = Some alice, bookmarks = [], loading = True, configError = None,
        subscription = Some ''u1'', in_flight = [''u1'']\<rparr>"
  let ?s1 = "\<lparr>user = Some alice, bookmarks = [], loading = True, configError = None,
        subscription = Some ''u1'', in_flight = []\<rparr>"
  let ?s2 = "\<lparr>user = Some alice, bookmarks = [b1], loading = True, configError = None,
        subscription = Some ''u1'', in_flight = []\<rparr>"
  let ?s3 = "\<lparr>user = Some alice, bookmarks = [b1, b1], loading = True, configError = None,
        subscription = Some ''u1'', in_flight = []\<rparr>"
  have ne: "Some alice \<noteq> user initial_home"
    by (simp add: initial_home_def)
  have i: "state_after initial_home (setUser ?R (Some alice) initial_home) = ?s0"
    by (simp add: state_after_def setUser_change [OF ne]) (simp add: initial_home_def alice_def)
  have g: "returned (getBookmarks ?R ''u1'') = Inr []"
    by (simp add: getBookmarks_def outcome_defs table_remote_def select_answer_bookmarks_query)
  have l: "state_after ?s0 (load_lands ?R 0 ?s0) = ?s1"
    using loadBookmarks_resumed_eq [OF g] by (simp add: state_after_def load_lands_def)
  have a: "state_after ?s1 (handleAddBookmark ?R ''Example'' ''https://example.com'' ?s1) = ?s2"
    using handleAddBookmark_success [of ?s1 alice ?R "''Example''" "''https://example.com''" b1]
    by (simp add: state_after_def create_b1 alice_def)
  have d: "state_after ?s2 (deliver insert_b1 ?s2) = ?s3"
    by (simp add: state_after_def deliver_eq realtime_callback_def insert_b1_def)
  have "run ?R alice_session initial_home = ?s3"
    by (simp add: alice_session_def i l a d)
  then show ?thesis by (simp add: b1_def)
qed

end
